theory Spec2Isabelle
  imports Main "HOL-Library.Word"
begin

section \<open>JavaScript values used by the analyze route\<close>

text \<open>
  A JavaScript string is a sequence of UTF-16 code units; \<open>length\<close> of the list is the
  string's \<^verbatim>\<open>.length\<close>. The literals of \<^verbatim>\<open>route.js\<close> are ASCII and are written
  \<open>js ''...''\<close>.
\<close>

type_synonym js_string = "16 word list"

definition js :: "string \<Rightarrow> js_string" where
  "js s = map (\<lambda>c. of_nat (of_char c)) s"

text \<open>\<^verbatim>\<open>String.prototype.includes\<close> and \<^verbatim>\<open>startsWith\<close>.\<close>

fun starts_with :: "'a list \<Rightarrow> 'a list \<Rightarrow> bool" where
  "starts_with s [] = True"
| "starts_with [] (p # ps) = False"
| "starts_with (c # cs) (p # ps) = (c = p \<and> starts_with cs ps)"

fun js_includes :: "'a list \<Rightarrow> 'a list \<Rightarrow> bool" where
  "js_includes [] t = starts_with [] t"
| "js_includes (c # cs) t = (starts_with (c # cs) t \<or> js_includes cs t)"

text \<open>
  \<^verbatim>\<open>String.prototype.trim\<close> strips the code units of ECMAScript's WhiteSpace and
  LineTerminator productions from both ends.
\<close>

definition is_whitespace :: "16 word \<Rightarrow> bool" where
  "is_whitespace c =
     (c = 0x0009 \<or> c = 0x000A \<or> c = 0x000B \<or> c = 0x000C \<or> c = 0x000D \<or> c = 0x0020
      \<or> c = 0x00A0 \<or> c = 0x1680 \<or> (0x2000 \<le> c \<and> c \<le> 0x200A) \<or> c = 0x2028
      \<or> c = 0x2029 \<or> c = 0x202F \<or> c = 0x205F \<or> c = 0x3000 \<or> c = 0xFEFF)"

definition trim :: "js_string \<Rightarrow> js_string" where
  "trim s = rev (dropWhile is_whitespace (rev (dropWhile is_whitespace s)))"

text \<open>Number-to-string conversion of a non-negative integer (template literals).\<close>

definition digit :: "nat \<Rightarrow> char" where
  "digit d =
     (if d = 0 then CHR ''0'' else if d = 1 then CHR ''1'' else if d = 2 then CHR ''2''
      else if d = 3 then CHR ''3'' else if d = 4 then CHR ''4'' else if d = 5 then CHR ''5''
      else if d = 6 then CHR ''6'' else if d = 7 then CHR ''7'' else if d = 8 then CHR ''8''
      else CHR ''9'')"

fun decimal :: "nat \<Rightarrow> string" where
  "decimal n = (if n < 10 then [digit n] else decimal (n div 10) @ [digit (n mod 10)])"

declare decimal.simps [simp del]

text \<open>
  JSON values: what \<^verbatim>\<open>request.json()\<close> yields and what \<^verbatim>\<open>NextResponse.json\<close>
  serialises. An object is its list of properties in insertion order. The handler never
  looks at the value of a number of the request body, only at whether a value is a string;
  the numbers it writes are lengths and sizes.
\<close>

datatype json =
    JNull
  | JBool bool
  | JNum int
  | JStr js_string
  | JArr "json list"
  | JObj "(js_string \<times> json) list"

text \<open>Reading a property of a response body.\<close>

fun field :: "json \<Rightarrow> string \<Rightarrow> json option" where
  "field (JObj kvs) k = map_of kvs (js k)"
| "field _ k = None"

text \<open>
  An object literal handed to \<^verbatim>\<open>JSON.stringify\<close>: a property whose value is
  \<^verbatim>\<open>undefined\<close> or a function is left out (here \<open>None\<close>).
\<close>

fun props :: "(string \<times> json option) list \<Rightarrow> (js_string \<times> json) list" where
  "props [] = []"
| "props ((k, None) # kvs) = props kvs"
| "props ((k, Some v) # kvs) = (js k, v) # props kvs"

text \<open>A thrown \<^verbatim>\<open>Error\<close>: the two properties the catch blocks read.\<close>

record js_error =
  message :: js_string
  stack :: js_string

section \<open>The environment of a request\<close>

text \<open>
  What the generative model is asked: \<^verbatim>\<open>getGenerativeModel\<close>'s configuration and the
  argument of \<^verbatim>\<open>generateContent\<close>, either a string or an array of parts.
\<close>

datatype part = TextPart js_string | InlineData js_string js_string

datatype content = Prompt js_string | Parts "part list"

record provider_request =
  model :: js_string
  temperature_tenths :: nat
  topP_tenths :: nat
  topK :: nat
  maxOutputTokens :: nat
  contents :: content

text \<open>
  The environment: the variable \<^verbatim>\<open>NEXT_PUBLIC_MODEL_NAME\<close>, the provider (the three
  awaited steps \<^verbatim>\<open>generateContent\<close>, \<^verbatim>\<open>result.response\<close>,
  \<^verbatim>\<open>response.text()\<close> taken together: they throw into the same catch block), the
  clock behind \<^verbatim>\<open>new Date().toISOString()\<close> and the stack string the engine attaches
  to a \<^verbatim>\<open>TypeError\<close> it raises inside a handler.
\<close>

record env =
  NEXT_PUBLIC_MODEL_NAME :: "js_string option"
  provider :: "provider_request \<Rightarrow> js_error + js_string"
  now :: js_string
  engine_stack :: js_string

text \<open>\<^verbatim>\<open>process.env.NEXT_PUBLIC_MODEL_NAME || 'gemini-1.5-flash'\<close>\<close>

definition MODEL_NAME :: "env \<Rightarrow> js_string" where
  "MODEL_NAME e =
     (case NEXT_PUBLIC_MODEL_NAME e of
        None \<Rightarrow> js ''gemini-1.5-flash''
      | Some n \<Rightarrow> if n = [] then js ''gemini-1.5-flash'' else n)"

definition TypeError :: "env \<Rightarrow> string \<Rightarrow> js_error" where
  "TypeError e m = \<lparr>message = js m, stack = engine_stack e\<rparr>"

text \<open>
  A response (status and JSON body) together with the provider requests issued while it
  was produced, in order.
\<close>

record response =
  status :: nat
  body :: json

record outcome =
  resp :: response
  calls :: "provider_request list"

definition reply :: "nat \<Rightarrow> (string \<times> json option) list \<Rightarrow> provider_request list \<Rightarrow> outcome" where
  "reply st kvs cs = \<lparr>resp = \<lparr>status = st, body = JObj (props kvs)\<rparr>, calls = cs\<rparr>"

section \<open>Requests\<close>

text \<open>
  A form entry is a string or a \<^verbatim>\<open>File\<close> with its \<^verbatim>\<open>name\<close>, \<^verbatim>\<open>type\<close> and content;
  \<^verbatim>\<open>file.size\<close> is the number of bytes of the content.
\<close>

record js_file =
  file_name :: js_string
  file_type :: js_string
  file_bytes :: "8 word list"

definition file_size :: "js_file \<Rightarrow> nat" where
  "file_size f = length (file_bytes f)"

datatype form_entry = EntryString js_string | EntryFile js_file

record form_data =
  file_field :: "form_entry option"
  prompt_field :: "form_entry option"
  instruction_field :: "form_entry option"

text \<open>
  A request: the \<^verbatim>\<open>content-type\<close> header and what awaiting \<^verbatim>\<open>request.json()\<close> and
  \<^verbatim>\<open>request.formData()\<close> gives, a parsed body or the error thrown.
\<close>

record request =
  content_type :: "js_string option"
  json_body :: "js_error + json"
  form_body :: "js_error + form_data"

section \<open>Text requests\<close>

text \<open>
  The catch block of \<^verbatim>\<open>handleTextRequest\<close> (lines 102-126). It receives every error
  thrown inside the try block.
\<close>

definition text_catch :: "js_error \<Rightarrow> provider_request list \<Rightarrow> outcome" where
  "text_catch error cs =
     (if js_includes (message error) (js ''API key'') \<or> js_includes (message error) (js ''API_KEY_INVALID'')
      then reply 401
        [(''success'', Some (JBool False)),
         (''error'', Some (JStr (js ''Gemini API key is invalid or missing. Please check your GOOGLE_API_KEY in .env.local file.''))),
         (''details'', Some (JStr (message error)))] cs
      else if js_includes (message error) (js ''quota'') \<or> js_includes (message error) (js ''QUOTA'')
      then reply 429
        [(''success'', Some (JBool False)),
         (''error'', Some (JStr (js ''API quota exceeded. Please check your Google Cloud billing or wait until quota resets.''))),
         (''details'', Some (JStr (message error)))] cs
      else reply 500
        [(''success'', Some (JBool False)),
         (''error'', Some (JStr (js ''Text analysis failed: '' @ message error))),
         (''details'', Some (JStr (stack error)))] cs)"

text \<open>
  \<^verbatim>\<open>const { prompt, timestamp } = body\<close>: destructuring \<^verbatim>\<open>null\<close> throws; any other
  JSON value has the property only when it is an object with that key.
\<close>

fun get_prompt :: "json \<Rightarrow> json option option" where
  "get_prompt JNull = None"
| "get_prompt (JObj kvs) = Some (map_of kvs (js ''prompt''))"
| "get_prompt _ = Some None"

definition text_request :: "env \<Rightarrow> js_string \<Rightarrow> provider_request" where
  "text_request e prompt =
     \<lparr>model = MODEL_NAME e, temperature_tenths = 7, topP_tenths = 8, topK = 40,
      maxOutputTokens = 2048, contents = Prompt prompt\<rparr>"

text \<open>
  \<^verbatim>\<open>handleTextRequest\<close> (lines 51-127). \<^verbatim>\<open>prompt?.trim()\<close> is \<^verbatim>\<open>undefined\<close> for an
  absent or \<^verbatim>\<open>null\<close> prompt, the trimmed string for a string, and a \<^verbatim>\<open>TypeError\<close>
  for every other JSON value, which has no callable \<^verbatim>\<open>trim\<close>.
\<close>

definition handleTextRequest :: "env \<Rightarrow> request \<Rightarrow> outcome" where
  "handleTextRequest e request =
     (case json_body request of
        Inl error \<Rightarrow> text_catch error []
      | Inr b \<Rightarrow>
         (case get_prompt b of
            None \<Rightarrow> text_catch (TypeError e ''Cannot destructure property 'prompt' of 'body' as it is null.'') []
          | Some None \<Rightarrow>
              reply 400 [(''success'', Some (JBool False)), (''error'', Some (JStr (js ''Prompt is required'')))] []
          | Some (Some JNull) \<Rightarrow>
              reply 400 [(''success'', Some (JBool False)), (''error'', Some (JStr (js ''Prompt is required'')))] []
          | Some (Some (JStr prompt)) \<Rightarrow>
              if trim prompt = []
              then reply 400 [(''success'', Some (JBool False)), (''error'', Some (JStr (js ''Prompt is required'')))] []
              else
                (case provider e (text_request e prompt) of
                   Inl error \<Rightarrow> text_catch error [text_request e prompt]
                 | Inr text \<Rightarrow>
                     reply 200
                       [(''success'', Some (JBool True)),
                        (''response'', Some (JStr text)),
                        (''metadata'', Some (JObj (props
                           [(''model'', Some (JStr (MODEL_NAME e))),
                            (''promptLength'', Some (JNum (int (length prompt)))),
                            (''responseLength'', Some (JNum (int (length text)))),
                            (''timestamp'', Some (JStr (now e)))])))]
                       [text_request e prompt])
          | Some (Some _) \<Rightarrow> text_catch (TypeError e ''prompt?.trim is not a function'') []))"

section \<open>File uploads\<close>

text \<open>
  \<^verbatim>\<open>SUPPORTED_TYPES\<close> (lines 12-23) is an object literal, so reading a property of it that
  is not its own falls through to \<^verbatim>\<open>Object.prototype\<close>, whose properties are functions,
  and the accessor \<^verbatim>\<open>__proto__\<close>, which gives the prototype object itself.
\<close>

definition SUPPORTED_TYPES :: "(string \<times> string) list" where
  "SUPPORTED_TYPES =
     [(''application/pdf'', ''PDF''),
      (''text/plain'', ''TXT''),
      (''text/markdown'', ''Markdown''),
      (''application/msword'', ''DOC''),
      (''application/vnd.openxmlformats-officedocument.wordprocessingml.document'', ''DOCX''),
      (''text/csv'', ''CSV''),
      (''image/jpeg'', ''JPEG''),
      (''image/png'', ''PNG''),
      (''image/webp'', ''WebP''),
      (''application/json'', ''JSON'')]"

definition MAX_FILE_SIZE :: nat where
  "MAX_FILE_SIZE = 10 * 1024 * 1024"

datatype js_value = Undefined | Str js_string | NativeFunction string | ObjectPrototype

definition Object_prototype :: "(string \<times> js_value) list" where
  "Object_prototype =
     [(''constructor'', NativeFunction ''Object''),
      (''__defineGetter__'', NativeFunction ''__defineGetter__''),
      (''__defineSetter__'', NativeFunction ''__defineSetter__''),
      (''hasOwnProperty'', NativeFunction ''hasOwnProperty''),
      (''__lookupGetter__'', NativeFunction ''__lookupGetter__''),
      (''__lookupSetter__'', NativeFunction ''__lookupSetter__''),
      (''isPrototypeOf'', NativeFunction ''isPrototypeOf''),
      (''propertyIsEnumerable'', NativeFunction ''propertyIsEnumerable''),
      (''toString'', NativeFunction ''toString''),
      (''valueOf'', NativeFunction ''valueOf''),
      (''__proto__'', ObjectPrototype),
      (''toLocaleString'', NativeFunction ''toLocaleString'')]"

text \<open>\<^verbatim>\<open>SUPPORTED_TYPES[fileType]\<close>\<close>

definition supported_type :: "js_string \<Rightarrow> js_value" where
  "supported_type k =
     (case map_of (map (\<lambda>(t, l). (js t, Str (js l))) SUPPORTED_TYPES) k of
        Some v \<Rightarrow> v
      | None \<Rightarrow>
         (case map_of (map (\<lambda>(p, v). (js p, v)) Object_prototype) k of
            Some v \<Rightarrow> v
          | None \<Rightarrow> Undefined))"

text \<open>Truthiness, conversion to a string in a template literal, and serialisation.\<close>

fun truthy :: "js_value \<Rightarrow> bool" where
  "truthy Undefined = False"
| "truthy (Str s) = (s \<noteq> [])"
| "truthy (NativeFunction f) = True"
| "truthy ObjectPrototype = True"

fun to_string :: "js_value \<Rightarrow> js_string" where
  "to_string Undefined = js ''undefined''"
| "to_string (Str s) = s"
| "to_string (NativeFunction f) = js (''function '' @ f @ ''() { [native code] }'')"
| "to_string ObjectPrototype = js ''[object Object]''"

fun to_json :: "js_value \<Rightarrow> json option" where
  "to_json Undefined = None"
| "to_json (Str s) = Some (JStr s)"
| "to_json (NativeFunction f) = None"
| "to_json ObjectPrototype = Some (JObj [])"

text \<open>\<^verbatim>\<open>Object.values(SUPPORTED_TYPES)\<close> and \<^verbatim>\<open>Array.prototype.join\<close>.\<close>

definition supported_labels :: "js_string list" where
  "supported_labels = map (\<lambda>(t, l). js l) SUPPORTED_TYPES"

fun join :: "js_string list \<Rightarrow> js_string \<Rightarrow> js_string" where
  "join [] sep = []"
| "join [x] sep = x"
| "join (x # y # ys) sep = x @ sep @ join (y # ys) sep"

text \<open>
  \<^verbatim>\<open>(file.size / 1024).toFixed(1)\<close>: the quotient is exact in a double, and
  \<^verbatim>\<open>toFixed\<close> picks the integer \<open>n\<close> with \<open>n / 10\<close> nearest to it, the larger one on a
  tie.
\<close>

definition kilobytes :: "nat \<Rightarrow> js_string" where
  "kilobytes sz = js (decimal ((sz * 10 + 512) div 1024 div 10) @ ''.'' @ [digit ((sz * 10 + 512) div 1024 mod 10)])"

text \<open>\<^verbatim>\<open>Buffer.prototype.toString('base64')\<close>: the standard alphabet, padded.\<close>

definition base64_char :: "nat \<Rightarrow> 16 word" where
  "base64_char i =
     (if i < 26 then of_nat (65 + i)
      else if i < 52 then of_nat (97 + (i - 26))
      else if i < 62 then of_nat (48 + (i - 52))
      else if i = 62 then 43 else 47)"

fun base64 :: "8 word list \<Rightarrow> js_string" where
  "base64 [] = []"
| "base64 [a] =
     [base64_char (unat a div 4), base64_char (unat a mod 4 * 16), 61, 61]"
| "base64 [a, b] =
     [base64_char (unat a div 4), base64_char (unat a mod 4 * 16 + unat b div 16),
      base64_char (unat b mod 16 * 4), 61]"
| "base64 (a # b # c # rest) =
     base64_char (unat a div 4) # base64_char (unat a mod 4 * 16 + unat b div 16) #
     base64_char (unat b mod 16 * 4 + unat c div 64) # base64_char (unat c mod 64) #
     base64 rest"

text \<open>
  \<^verbatim>\<open>new TextDecoder('utf-8').decode(fileBuffer)\<close>: the decoder of the Encoding standard in
  replacement mode (an ill-formed sequence gives U+FFFD and never throws, so the catch of
  lines 218-220 is not reached). The arguments are the decoder's code point, bytes needed,
  bytes seen, lower and upper boundary.
\<close>

function utf8_decoder :: "nat \<Rightarrow> nat \<Rightarrow> nat \<Rightarrow> nat \<Rightarrow> nat \<Rightarrow> 8 word list \<Rightarrow> nat list" where
  "utf8_decoder cp needed seen lo hi [] = (if needed \<noteq> 0 then [0xFFFD] else [])"
| "utf8_decoder cp needed seen lo hi (b # bs) =
     (if needed = 0 then
        (if unat b \<le> 0x7F then unat b # utf8_decoder 0 0 0 0x80 0xBF bs
         else if 0xC2 \<le> unat b \<and> unat b \<le> 0xDF then utf8_decoder (unat b mod 32) 1 0 0x80 0xBF bs
         else if 0xE0 \<le> unat b \<and> unat b \<le> 0xEF then
           utf8_decoder (unat b mod 16) 2 0 (if unat b = 0xE0 then 0xA0 else 0x80)
             (if unat b = 0xED then 0x9F else 0xBF) bs
         else if 0xF0 \<le> unat b \<and> unat b \<le> 0xF4 then
           utf8_decoder (unat b mod 8) 3 0 (if unat b = 0xF0 then 0x90 else 0x80)
             (if unat b = 0xF4 then 0x8F else 0xBF) bs
         else 0xFFFD # utf8_decoder 0 0 0 0x80 0xBF bs)
      else if unat b < lo \<or> hi < unat b then 0xFFFD # utf8_decoder 0 0 0 0x80 0xBF (b # bs)
      else if seen + 1 \<noteq> needed then
        utf8_decoder (cp * 64 + unat b mod 64) needed (seen + 1) 0x80 0xBF bs
      else (cp * 64 + unat b mod 64) # utf8_decoder 0 0 0 0x80 0xBF bs)"
  by pat_completeness auto
termination
  by (relation "measure (\<lambda>(cp, needed, seen, lo, hi, bs). 2 * length bs + (if needed = 0 then 0 else 1))") auto

text \<open>A code point as UTF-16 code units.\<close>

definition utf16 :: "nat \<Rightarrow> js_string" where
  "utf16 cp =
     (if cp < 0x10000 then [of_nat cp]
      else [of_nat (0xD800 + (cp - 0x10000) div 1024), of_nat (0xDC00 + (cp - 0x10000) mod 1024)])"

text \<open>\<^verbatim>\<open>ignoreBOM\<close> is false: a byte order mark decoded first is dropped.\<close>

definition strip_bom :: "nat list \<Rightarrow> nat list" where
  "strip_bom cps = (case cps of [] \<Rightarrow> [] | c # rest \<Rightarrow> if c = 0xFEFF then rest else c # rest)"

definition text_decode :: "8 word list \<Rightarrow> js_string" where
  "text_decode bs = concat (map utf16 (strip_bom (utf8_decoder 0 0 0 0x80 0xBF bs)))"

text \<open>
  \<^verbatim>\<open>formData.get(k) || d\<close>: \<^verbatim>\<open>null\<close> and the empty string give the default, any
  other entry (a non-empty string or a \<^verbatim>\<open>File\<close>) is kept.
\<close>

definition or_default :: "form_entry option \<Rightarrow> string \<Rightarrow> form_entry" where
  "or_default v d =
     (case v of
        None \<Rightarrow> EntryString (js d)
      | Some (EntryString s) \<Rightarrow> if s = [] then EntryString (js d) else EntryString s
      | Some (EntryFile f) \<Rightarrow> EntryFile f)"

text \<open>An entry inside a template literal.\<close>

definition entry_string :: "form_entry \<Rightarrow> js_string" where
  "entry_string v = (case v of EntryString s \<Rightarrow> s | EntryFile f \<Rightarrow> js ''[object File]'')"

definition nl :: js_string where
  "nl = [0x0A]"

text \<open>The catch block of \<^verbatim>\<open>handleFileUpload\<close> (lines 249-282).\<close>

definition file_catch :: "js_error \<Rightarrow> provider_request list \<Rightarrow> outcome" where
  "file_catch error cs =
     (if js_includes (message error) (js ''API key'') \<or> js_includes (message error) (js ''API_KEY_INVALID'')
      then reply 401
        [(''success'', Some (JBool False)),
         (''error'', Some (JStr (js ''Gemini API key is invalid or missing. Please check your GOOGLE_API_KEY in .env.local file.''))),
         (''details'', Some (JStr (message error)))] cs
      else if js_includes (message error) (js ''quota'') \<or> js_includes (message error) (js ''QUOTA'')
      then reply 429
        [(''success'', Some (JBool False)),
         (''error'', Some (JStr (js ''API quota exceeded. Please check your Google Cloud billing or wait until quota resets.''))),
         (''details'', Some (JStr (message error)))] cs
      else if js_includes (message error) (js ''invalid'') \<and> js_includes (message error) (js ''file'')
      then reply 400
        [(''success'', Some (JBool False)),
         (''error'', Some (JStr (js ''File format may not be supported by Gemini. Try converting to a different format.''))),
         (''details'', Some (JStr (message error)))] cs
      else reply 500
        [(''success'', Some (JBool False)),
         (''error'', Some (JStr (js ''File analysis failed: '' @ message error))),
         (''details'', Some (JStr (stack error)))] cs)"

definition file_request :: "env \<Rightarrow> content \<Rightarrow> provider_request" where
  "file_request e c =
     \<lparr>model = MODEL_NAME e, temperature_tenths = 7, topP_tenths = 8, topK = 40,
      maxOutputTokens = 4096, contents = c\<rparr>"

text \<open>The two arguments of \<^verbatim>\<open>generateContent\<close> (lines 195-205 and 217-222).\<close>

definition binary_content :: "js_string \<Rightarrow> js_file \<Rightarrow> js_value \<Rightarrow> js_string \<Rightarrow> content" where
  "binary_content instruction f supportedType prompt =
     Parts
       [TextPart (instruction @ nl @ nl @ js ''File: '' @ file_name f @ nl @
          js ''Type: '' @ to_string supportedType @ nl @
          js ''Size: '' @ kilobytes (file_size f) @ js '' KB'' @ nl @ nl @
          js ''Prompt: '' @ prompt @ nl @ nl @ js ''Please analyze this document:''),
        InlineData (file_type f) (base64 (file_bytes f))]"

definition text_content :: "js_string \<Rightarrow> js_file \<Rightarrow> js_value \<Rightarrow> js_string \<Rightarrow> content" where
  "text_content instruction f supportedType prompt =
     Prompt (instruction @ nl @ nl @ js ''File: '' @ file_name f @ nl @
       js ''Type: '' @ to_string supportedType @ nl @
       js ''Size: '' @ kilobytes (file_size f) @ js '' KB'' @ nl @ nl @
       js ''Prompt: '' @ prompt @ nl @ nl @ js ''File Content:'' @ nl @
       take 15000 (text_decode (file_bytes f)))"

definition no_file :: outcome where
  "no_file = reply 400 [(''success'', Some (JBool False)), (''error'', Some (JStr (js ''No file provided'')))] []"

definition unsupported :: "js_string \<Rightarrow> outcome" where
  "unsupported fileType =
     reply 400
       [(''success'', Some (JBool False)),
        (''error'', Some (JStr (js ''Unsupported file type: '' @ fileType @ js ''. Supported types: '' @
           join supported_labels (js '', ''))))] []"

text \<open>
  Lines 175-227 up to the call: the model's configuration and the branch on the type.
\<close>

definition upload_request :: "env \<Rightarrow> js_string \<Rightarrow> js_file \<Rightarrow> js_string \<Rightarrow> provider_request" where
  "upload_request e instruction f prompt =
     file_request e
       (if starts_with (file_type f) (js ''image/'') \<or> file_type f = js ''application/pdf''
        then binary_content instruction f (supported_type (file_type f)) prompt
        else text_content instruction f (supported_type (file_type f)) prompt)"

text \<open>
  \<^verbatim>\<open>handleFileUpload\<close> (lines 130-283). A string entry under \<^verbatim>\<open>file\<close> has neither
  \<^verbatim>\<open>size\<close> nor \<^verbatim>\<open>type\<close>: the size test is false and the table is read at the key
  \<^verbatim>\<open>undefined\<close>, which it does not have. \<^verbatim>\<open>prompt.substring\<close> (line 167) throws a
  \<^verbatim>\<open>TypeError\<close> when the prompt entry is a \<^verbatim>\<open>File\<close>. The two defaults of lines
  134-135 are \<open>default_prompt\<close> and \<open>default_instruction\<close>.
\<close>

definition default_prompt :: string where
  "default_prompt = ''Please analyze this file content and provide key insights''"

definition default_instruction :: string where
  "default_instruction = ''Extract key information, summarize content, and provide analysis''"

definition handleFileUpload :: "env \<Rightarrow> request \<Rightarrow> outcome" where
  "handleFileUpload e request =
     (case form_body request of
        Inl error \<Rightarrow> file_catch error []
      | Inr formData \<Rightarrow>
         (case file_field formData of
            None \<Rightarrow> no_file
          | Some (EntryString s) \<Rightarrow>
              if s = [] then no_file else unsupported (js ''undefined'')
          | Some (EntryFile f) \<Rightarrow>
              if file_size f > MAX_FILE_SIZE
              then reply 413
                [(''success'', Some (JBool False)),
                 (''error'', Some (JStr (js (''File too large. Maximum size is '' @
                    decimal (MAX_FILE_SIZE div 1024 div 1024) @ ''MB''))))] []
              else if \<not> truthy (supported_type (file_type f)) then unsupported (file_type f)
              else
                (case or_default (prompt_field formData) default_prompt of
                   EntryFile p \<Rightarrow> file_catch (TypeError e ''prompt.substring is not a function'') []
                 | EntryString prompt \<Rightarrow>
                    (case provider e
                            (upload_request e
                               (entry_string (or_default (instruction_field formData) default_instruction))
                               f prompt) of
                       Inl error \<Rightarrow>
                         file_catch error
                           [upload_request e
                              (entry_string (or_default (instruction_field formData) default_instruction))
                              f prompt]
                     | Inr analysis \<Rightarrow>
                         reply 200
                           [(''success'', Some (JBool True)),
                            (''response'', Some (JStr analysis)),
                            (''metadata'', Some (JObj (props
                               [(''model'', Some (JStr (MODEL_NAME e))),
                                (''fileName'', Some (JStr (file_name f))),
                                (''fileType'', to_json (supported_type (file_type f))),
                                (''fileSize'', Some (JNum (int (file_size f)))),
                                (''analysisLength'', Some (JNum (int (length analysis)))),
                                (''timestamp'', Some (JStr (now e)))])))]
                           [upload_request e
                              (entry_string (or_default (instruction_field formData) default_instruction))
                              f prompt]))))"

section \<open>The route\<close>

text \<open>
  \<^verbatim>\<open>POST\<close> (lines 28-48). Both handlers run wholly inside their own try block and their
  catch blocks only test and copy strings, so no error reaches the catch of lines 40-47.
  \<open>multipart\<close> is the test of line 33; an absent header counts as the empty string.
\<close>

definition multipart :: "request \<Rightarrow> bool" where
  "multipart request =
     js_includes (case content_type request of None \<Rightarrow> [] | Some c \<Rightarrow> c) (js ''multipart/form-data'')"

definition POST :: "env \<Rightarrow> request \<Rightarrow> outcome" where
  "POST e request =
     (if multipart request then handleFileUpload e request else handleTextRequest e request)"

text \<open>\<^verbatim>\<open>GET\<close> (lines 286-302).\<close>

definition GET :: \<open>env \<Rightarrow> request \<Rightarrow> response\<close> where
  \<open>GET e request =
     \<lparr>status = 200,
      body = JObj (props
        [(''message'', Some (JStr (js ''Gemini AI Analysis API''))),
         (''status'', Some (JStr (js ''active''))),
         (''model'', Some (JStr (MODEL_NAME e))),
         (''supportedFileTypes'', Some (JArr (map JStr supported_labels))),
         (''maxFileSize'', Some (JStr (js (decimal (MAX_FILE_SIZE div 1024 div 1024) @ ''MB'')))),
         (''endpoints'', Some (JObj (props
            [(''textAnalysis'', Some (JStr (js ''POST /api/analyze with JSON body {prompt: "your text"}''))),
             (''fileAnalysis'', Some (JStr (js ''POST /api/analyze with multipart/form-data (file and optional prompt)'')))]))),
         (''exampleUsage'', Some (JObj (props
            [(''curlText'', Some (JStr (js ''curl -X POST http://localhost:3000/api/analyze -H "Content-Type: application/json" -d '{"prompt":"Hello Gemini"}'' @ [0x27]))),
             (''curlFile'', Some (JStr (js ''curl -X POST http://localhost:3000/api/analyze -F "file=@document.pdf" -F "prompt=Analyze this"'')))])))])\<rparr>\<close>

text \<open>
  The shape shared by the bodies that \<^verbatim>\<open>POST\<close> returns: \<^verbatim>\<open>success\<close> tells whether the
  status is 200, one of \<^verbatim>\<open>response\<close> and \<^verbatim>\<open>error\<close> is there, and \<^verbatim>\<open>metadata\<close>
  comes with status 200 only.
\<close>

definition envelope :: "response \<Rightarrow> bool" where
  "envelope r =
     (field (body r) ''success'' = Some (JBool (status r = 200))
      \<and> (field (body r) ''response'' = None) \<noteq> (field (body r) ''error'' = None)
      \<and> (field (body r) ''metadata'' \<noteq> None) = (status r = 200))"

section \<open>Example requests\<close>

text \<open>
  Concrete environments and requests on which the results below are evaluated: a provider
  that answers, a provider that throws an error with a given message, a request with a
  JSON body and a multipart request with one form.
\<close>

definition answering :: "js_string \<Rightarrow> env" where
  "answering text =
     \<lparr>NEXT_PUBLIC_MODEL_NAME = None, provider = (\<lambda>q. Inr text),
      now = js ''2025-01-01T00:00:00.000Z'', engine_stack = js ''TypeError''\<rparr>"

definition throwing :: "js_string \<Rightarrow> env" where
  "throwing m =
     \<lparr>NEXT_PUBLIC_MODEL_NAME = None,
      provider = (\<lambda>q. Inl \<lparr>message = m, stack = js ''Error: '' @ m\<rparr>),
      now = js ''2025-01-01T00:00:00.000Z'', engine_stack = js ''TypeError''\<rparr>"

definition json_request :: "json \<Rightarrow> request" where
  "json_request b =
     \<lparr>content_type = Some (js ''application/json''), json_body = Inr b,
      form_body = Inl \<lparr>message = js ''Failed to parse body as FormData.'', stack = js ''TypeError''\<rparr>\<rparr>"

definition prompt_request :: "string \<Rightarrow> request" where
  "prompt_request p = json_request (JObj [(js ''prompt'', JStr (js p))])"

definition upload :: "form_data \<Rightarrow> request" where
  "upload fd =
     \<lparr>content_type = Some (js ''multipart/form-data; boundary=x''),
      json_body = Inl \<lparr>message = js ''Unexpected token'', stack = js ''SyntaxError''\<rparr>,
      form_body = Inr fd\<rparr>"

definition only_file :: "js_file \<Rightarrow> form_data" where
  "only_file f = \<lparr>file_field = Some (EntryFile f), prompt_field = None, instruction_field = None\<rparr>"

definition small_file :: "string \<Rightarrow> js_file" where
  "small_file t = \<lparr>file_name = js ''cv'', file_type = js t, file_bytes = [0x68, 0x69]\<rparr>"

definition big_file :: "string \<Rightarrow> nat \<Rightarrow> js_file" where
  "big_file t n = \<lparr>file_name = js ''cv'', file_type = js t, file_bytes = replicate n 0x20\<rparr>"

section \<open>Strings\<close>

text \<open>\<open>starts_with\<close> and \<open>js_includes\<close> are the prefix and the substring test.\<close>

lemma starts_with_iff: "starts_with s t \<longleftrightarrow> (\<exists>v. s = t @ v)"
  by (induction s t rule: starts_with.induct) auto

lemma js_includes_iff: "js_includes s t \<longleftrightarrow> (\<exists>u v. s = u @ t @ v)"
proof (induction s)
  case Nil
  then show ?case by (auto simp: starts_with_iff)
next
  case (Cons c cs)
  show ?case
  proof
    assume "js_includes (c # cs) t"
    then consider "starts_with (c # cs) t" | "js_includes cs t" by auto
    then show "\<exists>u v. c # cs = u @ t @ v"
    proof cases
      case 1
      then obtain v where "c # cs = t @ v" unfolding starts_with_iff ..
      then have "c # cs = [] @ t @ v" by simp
      then show ?thesis by blast
    next
      case 2
      then obtain u v where "cs = u @ t @ v" using Cons.IH by blast
      then have "c # cs = (c # u) @ t @ v" by simp
      then show ?thesis by blast
    qed
  next
    assume "\<exists>u v. c # cs = u @ t @ v"
    then obtain u v where uv: "c # cs = u @ t @ v" by blast
    show "js_includes (c # cs) t"
    proof (cases u)
      case Nil
      with uv have "starts_with (c # cs) t" unfolding starts_with_iff by auto
      then show ?thesis by simp
    next
      case (Cons d u')
      with uv have "cs = u' @ t @ v" by simp
      then have "js_includes cs t" using Cons.IH by blast
      then show ?thesis by simp
    qed
  qed
qed

text \<open>The code units of ASCII literals: \<open>js\<close> is injective.\<close>

lemma of_char_less: "(of_char c :: nat) < 65536"
proof -
  have "(of_char c :: nat) mod 256 = of_char c" by (rule of_char_mod_256)
  moreover have "(of_char c :: nat) mod 256 < 256" by simp
  ultimately show ?thesis by linarith
qed

lemma word16_of_nat_inject:
  assumes "m < 65536" "n < 65536" "(of_nat m :: 16 word) = of_nat n"
  shows "m = n"
proof -
  have "take_bit LENGTH(16) m = take_bit LENGTH(16) n"
    using assms(3) by (simp only: word_of_nat_eq_iff)
  moreover have "take_bit LENGTH(16) m = m" "take_bit LENGTH(16) n = n"
    using assms(1,2) by (simp_all add: take_bit_nat_eq_self)
  ultimately show ?thesis by simp
qed

lemma code_unit_inject: "((of_nat (of_char a) :: 16 word) = of_nat (of_char b)) = (a = b)"
proof
  assume "(of_nat (of_char a) :: 16 word) = of_nat (of_char b)"
  then have "(of_char a :: nat) = of_char b"
    by (rule word16_of_nat_inject [OF of_char_less of_char_less])
  then show "a = b" by (simp only: of_char_eq_iff)
qed simp

lemma js_inject [simp]: "(js a = js b) = (a = b)"
  unfolding js_def by (rule inj_map_eq_map) (simp add: inj_on_def code_unit_inject)

lemma js_Nil [simp]: "js [] = []"
  by (simp add: js_def)

lemma js_is_Nil [simp]: "(js s = []) = (s = [])"
  by (simp add: js_def)

lemma js_Cons: "js (c # cs) = of_nat (of_char c) # js cs"
  by (simp add: js_def)

lemma js_append: "js (a @ b) = js a @ js b"
  by (simp add: js_def)

lemma starts_with_js [simp]: "starts_with (js a) (js b) = starts_with a b"
  by (induction a b rule: starts_with.induct) (simp_all add: js_def code_unit_inject)

lemma js_includes_js [simp]: "js_includes (js a) (js b) = js_includes a b"
proof (induction a)
  case Nil
  have "starts_with (js []) (js b) = starts_with [] b" by (rule starts_with_js)
  then show ?case by simp
next
  case (Cons c cs)
  have "starts_with (js (c # cs)) (js b) = starts_with (c # cs) b" by (rule starts_with_js)
  with Cons show ?case by (simp add: js_Cons)
qed

text \<open>A string trims to the empty string exactly when it is whitespace throughout.\<close>

lemma trim_Nil_iff: "trim s = [] \<longleftrightarrow> list_all is_whitespace s"
  unfolding list_all_iff
  by (metis (no_types, lifting) dropWhile_eq_Nil_conv dropWhile_idem set_empty set_rev trim_def)

text \<open>Base64 writes four characters for every three bytes begun.\<close>

lemma length_base64: "length (base64 bs) = 4 * ((length bs + 2) div 3)"
  by (induction bs rule: base64.induct) (simp_all, arith)

text \<open>Bytes below 0x80 decode to themselves.\<close>

lemma utf8_decoder_ascii:
  assumes "list_all (\<lambda>b. unat b \<le> 0x7F) bs"
  shows "utf8_decoder 0 0 0 0x80 0xBF bs = map unat bs"
  using assms by (induction bs) simp_all

section \<open>Replies and catch blocks\<close>

lemma reply_simps [simp]:
  "status (resp (reply st kvs cs)) = st"
  "body (resp (reply st kvs cs)) = JObj (props kvs)"
  "calls (reply st kvs cs) = cs"
  by (simp_all add: reply_def)

lemma text_catch_calls [simp]: "calls (text_catch error cs) = cs"
  by (simp add: text_catch_def)

lemma file_catch_calls [simp]: "calls (file_catch error cs) = cs"
  by (simp add: file_catch_def)

lemma file_catch_status [simp]: "status (resp (file_catch error cs)) \<noteq> 413"
  by (simp add: file_catch_def)

lemma no_file_simps [simp]: "calls no_file = []" "status (resp no_file) = 400"
  by (simp_all add: no_file_def)

lemma unsupported_simps [simp]: "calls (unsupported t) = []" "status (resp (unsupported t)) = 400"
  by (simp_all add: unsupported_def)

lemma multipart_form_body_update [simp]: "multipart (request\<lparr>form_body := b\<rparr>) = multipart request"
  by (simp add: multipart_def)

text \<open>
  A handler that has called the provider and got an error back answers from its catch
  block.
\<close>

lemma text_provider_error:
  assumes "calls (handleTextRequest e request) = [q]" and "provider e q = Inl error"
  shows "handleTextRequest e request = text_catch error [q]"
  using assms
  by (auto simp: handleTextRequest_def split: sum.splits option.splits json.splits if_splits)

lemma file_provider_error:
  assumes "calls (handleFileUpload e request) = [q]" and "provider e q = Inl error"
  shows "handleFileUpload e request = file_catch error [q]"
  using assms
  by (auto simp: handleFileUpload_def split: sum.splits option.splits form_entry.splits if_splits)

text \<open>Every reply of the two handlers has the shape \<open>envelope\<close>.\<close>

lemma envelope_text_catch: "envelope (resp (text_catch error cs))"
  by (simp add: envelope_def text_catch_def)

lemma envelope_file_catch: "envelope (resp (file_catch error cs))"
  by (simp add: envelope_def file_catch_def)

lemma envelope_text: "envelope (resp (handleTextRequest e request))"
  by (simp add: handleTextRequest_def envelope_text_catch split: sum.splits option.splits json.splits)
     (simp add: envelope_def)

lemma envelope_file: "envelope (resp (handleFileUpload e request))"
  by (simp add: handleFileUpload_def envelope_file_catch split: sum.splits option.splits form_entry.splits)
     (simp add: envelope_def no_file_def unsupported_def)

section \<open>The table and the defaults\<close>

lemma max_megabytes [simp]: "decimal (MAX_FILE_SIZE div 1024 div 1024) = ''10''"
  by (simp add: MAX_FILE_SIZE_def decimal.simps digit_def)

lemma supported_pdf [simp]: "supported_type (js ''application/pdf'') = Str (js ''PDF'')"
  by (simp add: supported_type_def SUPPORTED_TYPES_def)

lemma supported_plain [simp]: "supported_type (js ''text/plain'') = Str (js ''TXT'')"
  by (simp add: supported_type_def SUPPORTED_TYPES_def)

lemma supported_constructor [simp]: "supported_type (js ''constructor'') = NativeFunction ''Object''"
  by (simp add: supported_type_def SUPPORTED_TYPES_def Object_prototype_def)

lemma supported_truthy:
  assumes "t \<in> set (map (\<lambda>(t, l). js t) SUPPORTED_TYPES)"
  shows "truthy (supported_type t)"
  using assms by (auto simp: SUPPORTED_TYPES_def supported_type_def)

lemma labels_joined:
  "join supported_labels (js '', '') = js ''PDF, TXT, Markdown, DOC, DOCX, CSV, JPEG, PNG, WebP, JSON''"
  by (simp add: supported_labels_def SUPPORTED_TYPES_def js_def)

lemma default_prompt_nonempty [simp]: "default_prompt \<noteq> []"
  by (simp add: default_prompt_def)

lemma default_instruction_nonempty [simp]: "default_instruction \<noteq> []"
  by (simp add: default_instruction_def)

lemma or_default_None [simp]: "or_default None d = EntryString (js d)"
  by (simp add: or_default_def)

lemma or_default_default [simp]:
  "d \<noteq> [] \<Longrightarrow> or_default (Some (EntryString (js d))) d = EntryString (js d)"
  by (simp add: or_default_def)

lemma entry_string_EntryString [simp]: "entry_string (EntryString s) = s"
  by (simp add: entry_string_def)

lemma binary_content_shape:
  "\<exists>t. binary_content i f v p = Parts [TextPart t, InlineData (file_type f) (base64 (file_bytes f))]"
  by (simp add: binary_content_def)

lemma text_content_shape:
  "\<exists>t. text_content i f v p = Prompt (t @ js ''File Content:'' @ nl @ take 15000 (text_decode (file_bytes f)))"
  unfolding text_content_def
  by (rule exI [of _ "i @ nl @ nl @ js ''File: '' @ file_name f @ nl @ js ''Type: '' @ to_string v @ nl @
        js ''Size: '' @ kilobytes (file_size f) @ js '' KB'' @ nl @ nl @ js ''Prompt: '' @ p @ nl @ nl"])
     simp

lemma upload_request_contents:
  "contents (upload_request e i f p) =
     (if starts_with (file_type f) (js ''image/'') \<or> file_type f = js ''application/pdf''
      then binary_content i f (supported_type (file_type f)) p
      else text_content i f (supported_type (file_type f)) p)"
  by (simp add: upload_request_def file_request_def)

section \<open>The example requests\<close>

lemma multipart_json_request [simp]: "\<not> multipart (json_request b)"
  by (simp add: multipart_def json_request_def)

lemma prompt_request_text [simp]: "\<not> multipart (prompt_request p)"
  by (simp add: prompt_request_def)

lemma prompt_request_body [simp]:
  "json_body (prompt_request p) = Inr (JObj [(js ''prompt'', JStr (js p))])"
  by (simp add: prompt_request_def json_request_def)

lemma multipart_upload [simp]: "multipart (upload fd)"
  by (simp add: multipart_def upload_def)

lemma upload_form [simp]: "form_body (upload fd) = Inr fd"
  by (simp add: upload_def)

lemma only_file_simps [simp]:
  "file_field (only_file f) = Some (EntryFile f)"
  "prompt_field (only_file f) = None"
  "instruction_field (only_file f) = None"
  by (simp_all add: only_file_def)

lemma small_file_simps [simp]:
  "file_size (small_file t) = 2"
  "file_type (small_file t) = js t"
  "file_bytes (small_file t) = [0x68, 0x69]"
  by (simp_all add: small_file_def file_size_def)

lemma big_file_simps [simp]:
  "file_size (big_file t n) = n"
  "file_type (big_file t n) = js t"
  by (simp_all add: big_file_def file_size_def)

lemma throwing_provider [simp]:
  "provider (throwing m) q = Inl \<lparr>message = m, stack = js ''Error: '' @ m\<rparr>"
  by (simp add: throwing_def)

lemma answering_provider [simp]: "provider (answering t) q = Inr t"
  by (simp add: answering_def)

lemma hello_not_blank: "trim (js ''hello'') \<noteq> []"
  by (simp add: trim_Nil_iff js_def is_whitespace_def)

lemma hello_calls: "calls (POST e (prompt_request ''hello'')) = [text_request e (js ''hello'')]"
  using hello_not_blank
  by (simp add: POST_def handleTextRequest_def split: sum.splits)

lemma decode_hi: "text_decode [0x68, 0x69] = js ''hi''"
  by (simp add: text_decode_def strip_bom_def utf16_def js_def)

lemma only_file_calls:
  assumes "file_size f \<le> 10 * 1024 * 1024" and "truthy (supported_type (file_type f))"
  shows "calls (POST e (upload (only_file f))) = [upload_request e (js default_instruction) f (js default_prompt)]"
  using assms by (simp add: POST_def handleFileUpload_def MAX_FILE_SIZE_def split: sum.splits)

lemma only_file_status:
  assumes "file_size f \<le> 10 * 1024 * 1024" and "truthy (supported_type (file_type f))"
  shows "status (resp (POST (answering t) (upload (only_file f)))) = 200"
  using assms by (simp add: POST_def handleFileUpload_def MAX_FILE_SIZE_def)

section \<open>Text requests\<close>

text \<open>
  C3, as the code has it. A request that is not multipart and whose JSON body is any value
  but \<^verbatim>\<open>null\<close>, with a \<^verbatim>\<open>prompt\<close> that is absent (for an object without that
  property, and for every array, string, number and boolean), \<^verbatim>\<open>null\<close>, or a string
  that is empty or whitespace throughout, is answered with status 400 and the error
  \<^verbatim>\<open>Prompt is required\<close>, and the provider is not called.
\<close>

theorem blank_prompt_rejected:
  assumes "\<not> multipart request"
    and "json_body request = Inr b"
    and "b \<noteq> JNull"
    and "field b ''prompt'' = None \<or> field b ''prompt'' = Some JNull
         \<or> (\<exists>s. field b ''prompt'' = Some (JStr s) \<and> list_all is_whitespace s)"
  shows "status (resp (POST e request)) = 400
    \<and> field (body (resp (POST e request))) ''error'' = Some (JStr (js ''Prompt is required''))
    \<and> calls (POST e request) = []"
proof -
  have g: "get_prompt b = Some (field b ''prompt'')"
    using assms(3) by (cases b) simp_all
  show ?thesis
    using assms(1,2,4) g by (auto simp: POST_def handleTextRequest_def trim_Nil_iff)
qed

theorem blank_prompt_rejected_witness:
  "\<not> multipart (prompt_request ''  '')
   \<and> json_body (prompt_request ''  '') = Inr (JObj [(js ''prompt'', JStr (js ''  ''))])
   \<and> JObj [(js ''prompt'', JStr (js ''  ''))] \<noteq> JNull
   \<and> field (JObj [(js ''prompt'', JStr (js ''  ''))]) ''prompt'' = Some (JStr (js ''  ''))
   \<and> list_all is_whitespace (js ''  '')
   \<and> status (resp (POST (answering (js ''ok'')) (prompt_request ''  ''))) = 400
   \<and> field (body (resp (POST (answering (js ''ok'')) (prompt_request ''  '')))) ''error''
       = Some (JStr (js ''Prompt is required''))
   \<and> calls (POST (answering (js ''ok'')) (prompt_request ''  '')) = []"
proof -
  have ws: "list_all is_whitespace (js ''  '')"
    by (simp add: js_def is_whitespace_def)
  have n: "JObj [(js ''prompt'', JStr (js ''  ''))] \<noteq> JNull"
    by simp
  have m: "field (JObj [(js ''prompt'', JStr (js ''  ''))]) ''prompt'' = Some (JStr (js ''  ''))"
    by simp
  have p: "field (JObj [(js ''prompt'', JStr (js ''  ''))]) ''prompt'' = None
      \<or> field (JObj [(js ''prompt'', JStr (js ''  ''))]) ''prompt'' = Some JNull
      \<or> (\<exists>s. field (JObj [(js ''prompt'', JStr (js ''  ''))]) ''prompt'' = Some (JStr s)
            \<and> list_all is_whitespace s)"
    using ws m by blast
  note r = blank_prompt_rejected [where e = "answering (js ''ok'')",
      OF prompt_request_text prompt_request_body n p]
  from r ws n m prompt_request_text [of "''  ''"] prompt_request_body [of "''  ''"]
  show ?thesis by blast
qed

text \<open>
  C3 as stated fails: the JSON body \<^verbatim>\<open>null\<close> has no \<^verbatim>\<open>prompt\<close>, yet destructuring it
  (line 54) throws inside the try block and the catch block answers 500.
\<close>

theorem null_body_is_500:
  "\<not> multipart (json_request JNull)
   \<and> json_body (json_request JNull) = Inr JNull
   \<and> field JNull ''prompt'' = None
   \<and> status (resp (POST (answering (js ''ok'')) (json_request JNull))) = 500
   \<and> calls (POST (answering (js ''ok'')) (json_request JNull)) = []"
proof -
  have b: "json_body (json_request JNull) = Inr JNull"
    by (simp add: json_request_def)
  have "handleTextRequest (answering (js ''ok'')) (json_request JNull)
      = text_catch (TypeError (answering (js ''ok''))
          ''Cannot destructure property 'prompt' of 'body' as it is null.'') []"
    using b by (simp add: handleTextRequest_def)
  then have "status (resp (POST (answering (js ''ok'')) (json_request JNull))) = 500
      \<and> calls (POST (answering (js ''ok'')) (json_request JNull)) = []"
    by (simp add: POST_def text_catch_def TypeError_def)
  with b show ?thesis by simp
qed

text \<open>
  C7, as the code has it. A request that is not multipart, whose JSON body is an object
  with a \<^verbatim>\<open>prompt\<close> string that is not blank, and whose provider call returns a text, is
  answered with status 200, \<^verbatim>\<open>success\<close> true, that very text as \<^verbatim>\<open>response\<close>, and a
  \<^verbatim>\<open>metadata\<close> object whose \<^verbatim>\<open>promptLength\<close> is the length of the prompt as
  submitted (untrimmed, in UTF-16 code units).
\<close>

theorem text_prompt_answered:
  assumes "\<not> multipart request"
    and "json_body request = Inr (JObj kvs)"
    and "map_of kvs (js ''prompt'') = Some (JStr prompt)"
    and "\<not> list_all is_whitespace prompt"
    and "calls (POST e request) = [q]"
    and "provider e q = Inr text"
  shows "status (resp (POST e request)) = 200
    \<and> field (body (resp (POST e request))) ''success'' = Some (JBool True)
    \<and> field (body (resp (POST e request))) ''response'' = Some (JStr text)
    \<and> (\<exists>m. field (body (resp (POST e request))) ''metadata'' = Some m
          \<and> field m ''promptLength'' = Some (JNum (int (length prompt))))"
proof -
  have t: "trim prompt \<noteq> []" using assms(4) by (simp add: trim_Nil_iff)
  have h: "POST e request = handleTextRequest e request" using assms(1) by (simp add: POST_def)
  have q: "q = text_request e prompt"
    using assms(2,3,5) t unfolding h
    by (auto simp: handleTextRequest_def split: sum.splits)
  show ?thesis
    using assms(2,3,6) t unfolding h q
    by (simp add: handleTextRequest_def)
qed

theorem text_prompt_answered_witness:
  "\<not> multipart (prompt_request ''hello'')
   \<and> json_body (prompt_request ''hello'') = Inr (JObj [(js ''prompt'', JStr (js ''hello''))])
   \<and> map_of [(js ''prompt'', JStr (js ''hello''))] (js ''prompt'') = Some (JStr (js ''hello''))
   \<and> \<not> list_all is_whitespace (js ''hello'')
   \<and> calls (POST (answering (js ''ok'')) (prompt_request ''hello''))
       = [text_request (answering (js ''ok'')) (js ''hello'')]
   \<and> provider (answering (js ''ok'')) (text_request (answering (js ''ok'')) (js ''hello'')) = Inr (js ''ok'')
   \<and> status (resp (POST (answering (js ''ok'')) (prompt_request ''hello''))) = 200
   \<and> field (body (resp (POST (answering (js ''ok'')) (prompt_request ''hello'')))) ''response''
       = Some (JStr (js ''ok''))
   \<and> (\<exists>m. field (body (resp (POST (answering (js ''ok'')) (prompt_request ''hello'')))) ''metadata'' = Some m
          \<and> field m ''promptLength'' = Some (JNum 5))"
proof -
  have nb: "\<not> list_all is_whitespace (js ''hello'')"
    using hello_not_blank unfolding trim_Nil_iff .
  have p: "map_of [(js ''prompt'', JStr (js ''hello''))] (js ''prompt'') = Some (JStr (js ''hello''))"
    by simp
  have c: "calls (POST (answering (js ''ok'')) (prompt_request ''hello''))
      = [text_request (answering (js ''ok'')) (js ''hello'')]"
    by (rule hello_calls)
  have a: "provider (answering (js ''ok'')) (text_request (answering (js ''ok'')) (js ''hello'')) = Inr (js ''ok'')"
    by (rule answering_provider)
  have l: "int (length (js ''hello'')) = 5" by (simp add: js_def)
  note r = text_prompt_answered [OF prompt_request_text prompt_request_body p nb c a, unfolded l]
  from r nb p c a prompt_request_text [of "''hello''"] prompt_request_body [of "''hello''"]
  show ?thesis by blast
qed

text \<open>
  C7 as stated fails: when the provider's text is the empty string, the answer is a 200
  whose \<^verbatim>\<open>response\<close> is the empty string.
\<close>

theorem empty_text_passed_on:
  "calls (POST (answering []) (prompt_request ''hello'')) = [text_request (answering []) (js ''hello'')]
   \<and> provider (answering []) (text_request (answering []) (js ''hello'')) = Inr []
   \<and> status (resp (POST (answering []) (prompt_request ''hello''))) = 200
   \<and> field (body (resp (POST (answering []) (prompt_request ''hello'')))) ''response'' = Some (JStr [])"
  using hello_not_blank
  by (simp add: POST_def handleTextRequest_def)

section \<open>Provider errors\<close>

text \<open>
  C1, as the code has it. When the handler has called the provider and the call threw, the
  status is chosen by the first test that holds of the error's message: it includes
  \<^verbatim>\<open>API key\<close> or \<^verbatim>\<open>API_KEY_INVALID\<close>: 401; it includes \<^verbatim>\<open>quota\<close> or
  \<^verbatim>\<open>QUOTA\<close>: 429; the request is multipart and the message includes both
  \<^verbatim>\<open>invalid\<close> and \<^verbatim>\<open>file\<close>: 400; otherwise 500, and then \<^verbatim>\<open>error\<close> is the raw message
  after the handler's prefix and \<^verbatim>\<open>details\<close> is the error's stack.
\<close>

theorem provider_error_status:
  assumes "calls (POST e request) = [q]" and "provider e q = Inl error"
  shows "status (resp (POST e request)) =
      (if js_includes (message error) (js ''API key'') \<or> js_includes (message error) (js ''API_KEY_INVALID'')
       then 401
       else if js_includes (message error) (js ''quota'') \<or> js_includes (message error) (js ''QUOTA'')
       then 429
       else if multipart request \<and> js_includes (message error) (js ''invalid'')
               \<and> js_includes (message error) (js ''file'')
       then 400
       else 500)
    \<and> (status (resp (POST e request)) = 500 \<longrightarrow>
         field (body (resp (POST e request))) ''error''
           = Some (JStr (js (if multipart request then ''File analysis failed: '' else ''Text analysis failed: '')
                         @ message error))
         \<and> field (body (resp (POST e request))) ''details'' = Some (JStr (stack error)))"
proof (cases "multipart request")
  case True
  then have "POST e request = file_catch error [q]"
    using assms by (simp add: POST_def file_provider_error)
  then show ?thesis using True by (simp add: file_catch_def)
next
  case False
  then have "POST e request = text_catch error [q]"
    using assms by (simp add: POST_def text_provider_error)
  then show ?thesis using False by (simp add: text_catch_def)
qed

theorem provider_error_status_witness:
  "calls (POST (throwing (js ''quota exceeded'')) (prompt_request ''hello''))
     = [text_request (throwing (js ''quota exceeded'')) (js ''hello'')]
   \<and> provider (throwing (js ''quota exceeded'')) (text_request (throwing (js ''quota exceeded'')) (js ''hello''))
     = Inl \<lparr>message = js ''quota exceeded'', stack = js ''Error: '' @ js ''quota exceeded''\<rparr>
   \<and> status (resp (POST (throwing (js ''quota exceeded'')) (prompt_request ''hello''))) = 429"
proof -
  have c: "calls (POST (throwing (js ''quota exceeded'')) (prompt_request ''hello''))
      = [text_request (throwing (js ''quota exceeded'')) (js ''hello'')]"
    by (rule hello_calls)
  have t: "provider (throwing (js ''quota exceeded'')) (text_request (throwing (js ''quota exceeded'')) (js ''hello''))
      = Inl \<lparr>message = js ''quota exceeded'', stack = js ''Error: '' @ js ''quota exceeded''\<rparr>"
    by (rule throwing_provider)
  have "status (resp (POST (throwing (js ''quota exceeded'')) (prompt_request ''hello''))) = 429"
    using provider_error_status [OF c t] by simp
  with c t show ?thesis by blast
qed

text \<open>
  C1 as stated fails: the message \<^verbatim>\<open>API_KEY_INVALID\<close> includes neither \<^verbatim>\<open>API key\<close>
  nor \<^verbatim>\<open>quota\<close> and comes from a text request, where no file is involved, yet the
  status is 401 and not 500.
\<close>

theorem api_key_invalid_is_401:
  "calls (POST (throwing (js ''API_KEY_INVALID'')) (prompt_request ''hello''))
     = [text_request (throwing (js ''API_KEY_INVALID'')) (js ''hello'')]
   \<and> provider (throwing (js ''API_KEY_INVALID'')) (text_request (throwing (js ''API_KEY_INVALID'')) (js ''hello''))
     = Inl \<lparr>message = js ''API_KEY_INVALID'', stack = js ''Error: '' @ js ''API_KEY_INVALID''\<rparr>
   \<and> \<not> js_includes (js ''API_KEY_INVALID'') (js ''API key'')
   \<and> \<not> js_includes (js ''API_KEY_INVALID'') (js ''quota'')
   \<and> status (resp (POST (throwing (js ''API_KEY_INVALID'')) (prompt_request ''hello''))) = 401"
  using hello_not_blank
  by (simp add: POST_def handleTextRequest_def text_catch_def)

section \<open>File uploads\<close>

text \<open>
  C4. A multipart request whose \<^verbatim>\<open>file\<close> entry is a file is answered with status 413
  exactly when the file has more than 10 * 1024 * 1024 bytes, whatever its type: a larger
  file gets 413, a file of exactly that size does not.
\<close>

theorem oversize_rejected:
  assumes "multipart request"
    and "form_body request = Inr fd"
    and "file_field fd = Some (EntryFile f)"
  shows "(status (resp (POST e request)) = 413) = (file_size f > 10 * 1024 * 1024)"
proof (cases "file_size f > MAX_FILE_SIZE")
  case True
  then show ?thesis using assms by (simp add: POST_def handleFileUpload_def MAX_FILE_SIZE_def)
next
  case False
  have "status (resp (handleFileUpload e request)) \<noteq> 413"
    using assms False
    by (auto simp: handleFileUpload_def split: sum.splits form_entry.splits)
  then show ?thesis using assms(1) False by (simp add: POST_def MAX_FILE_SIZE_def)
qed

theorem oversize_rejected_witness:
  "multipart (upload (only_file (big_file ''video/mp4'' 10485761)))
   \<and> form_body (upload (only_file (big_file ''video/mp4'' 10485761))) = Inr (only_file (big_file ''video/mp4'' 10485761))
   \<and> file_field (only_file (big_file ''video/mp4'' 10485761)) = Some (EntryFile (big_file ''video/mp4'' 10485761))
   \<and> file_size (big_file ''video/mp4'' 10485761) = 10485761
   \<and> status (resp (POST (answering (js ''ok'')) (upload (only_file (big_file ''video/mp4'' 10485761))))) = 413
   \<and> file_size (big_file ''video/mp4'' 10485760) = 10485760
   \<and> status (resp (POST (answering (js ''ok'')) (upload (only_file (big_file ''video/mp4'' 10485760))))) \<noteq> 413"
  using oversize_rejected [where f = "big_file ''video/mp4'' 10485761" and e = "answering (js ''ok'')",
      OF multipart_upload upload_form only_file_simps(1)]
    oversize_rejected [where f = "big_file ''video/mp4'' 10485760" and e = "answering (js ''ok'')",
      OF multipart_upload upload_form only_file_simps(1)]
  by simp

text \<open>
  C5 on the code: a two-byte file of type \<^verbatim>\<open>constructor\<close>, which is not a key of
  \<^verbatim>\<open>SUPPORTED_TYPES\<close>, passes the type check, because
  \<^verbatim>\<open>SUPPORTED_TYPES['constructor']\<close> is the inherited function \<^verbatim>\<open>Object\<close>; the provider
  is called and the answer is 200.
\<close>

theorem prototype_key_accepted:
  "js ''constructor'' \<notin> set (map (\<lambda>(t, l). js t) SUPPORTED_TYPES)
   \<and> file_type (small_file ''constructor'') = js ''constructor''
   \<and> file_size (small_file ''constructor'') \<le> 10 * 1024 * 1024
   \<and> status (resp (POST (answering (js ''ok'')) (upload (only_file (small_file ''constructor''))))) = 200
   \<and> calls (POST (answering (js ''ok'')) (upload (only_file (small_file ''constructor''))))
       = [upload_request (answering (js ''ok'')) (js default_instruction) (small_file ''constructor'') (js default_prompt)]"
  by (simp add: SUPPORTED_TYPES_def only_file_calls only_file_status)

text \<open>
  Where neither the table nor its prototype has a property of the file's type, the upload
  is refused with status 400 and the list of the supported labels, before any provider
  call.
\<close>

lemma unknown_type_rejected:
  assumes "multipart request"
    and "form_body request = Inr fd"
    and "file_field fd = Some (EntryFile f)"
    and "file_size f \<le> 10 * 1024 * 1024"
    and "supported_type (file_type f) = Undefined"
  shows "status (resp (POST e request)) = 400
    \<and> field (body (resp (POST e request))) ''error''
        = Some (JStr (js ''Unsupported file type: '' @ file_type f
            @ js ''. Supported types: PDF, TXT, Markdown, DOC, DOCX, CSV, JPEG, PNG, WebP, JSON''))
    \<and> calls (POST e request) = []"
  using assms
  by (simp add: POST_def handleFileUpload_def MAX_FILE_SIZE_def unsupported_def labels_joined js_append [symmetric])



text \<open>
  C10. For a multipart request with a file, leaving out \<^verbatim>\<open>prompt\<close> gives the very
  outcome of sending \<^verbatim>\<open>Please analyze this file content and provide key insights\<close>, and
  leaving out \<^verbatim>\<open>instruction\<close> the very outcome of sending
  \<^verbatim>\<open>Extract key information, summarize content, and provide analysis\<close>. When the file
  passes the size and type checks (and the prompt entry is not itself a file), the
  provider is called once, with a text that starts with the instruction and holds the
  prompt after \<^verbatim>\<open>Prompt: \<close>; these are the two quoted texts wherever the field was left
  out.
\<close>

theorem missing_fields_defaulted:
  assumes "multipart request"
    and "form_body request = Inr fd"
    and "file_field fd = Some (EntryFile f)"
  shows "(prompt_field fd = None \<longrightarrow>
            POST e request
              = POST e (request\<lparr>form_body := Inr (fd\<lparr>prompt_field :=
                  Some (EntryString (js ''Please analyze this file content and provide key insights''))\<rparr>)\<rparr>))
    \<and> (instruction_field fd = None \<longrightarrow>
            POST e request
              = POST e (request\<lparr>form_body := Inr (fd\<lparr>instruction_field :=
                  Some (EntryString (js ''Extract key information, summarize content, and provide analysis''))\<rparr>)\<rparr>))
    \<and> (file_size f \<le> 10 * 1024 * 1024 \<and> truthy (supported_type (file_type f))
          \<and> (\<forall>x. prompt_field fd \<noteq> Some (EntryFile x)) \<longrightarrow>
         (\<exists>q i p. calls (POST e request) = [q]
            \<and> (instruction_field fd = None \<longrightarrow>
                  i = js ''Extract key information, summarize content, and provide analysis'')
            \<and> (prompt_field fd = None \<longrightarrow>
                  p = js ''Please analyze this file content and provide key insights'')
            \<and> contents q =
                (if starts_with (file_type f) (js ''image/'') \<or> file_type f = js ''application/pdf''
                 then Parts
                   [TextPart (i @ nl @ nl @ js ''File: '' @ file_name f @ nl @
                      js ''Type: '' @ to_string (supported_type (file_type f)) @ nl @
                      js ''Size: '' @ kilobytes (file_size f) @ js '' KB'' @ nl @ nl @
                      js ''Prompt: '' @ p @ nl @ nl @ js ''Please analyze this document:''),
                    InlineData (file_type f) (base64 (file_bytes f))]
                 else Prompt (i @ nl @ nl @ js ''File: '' @ file_name f @ nl @
                      js ''Type: '' @ to_string (supported_type (file_type f)) @ nl @
                      js ''Size: '' @ kilobytes (file_size f) @ js '' KB'' @ nl @ nl @
                      js ''Prompt: '' @ p @ nl @ nl @ js ''File Content:'' @ nl @
                      take 15000 (text_decode (file_bytes f))))))"
proof (intro conjI impI)
  assume "prompt_field fd = None"
  then show "POST e request
      = POST e (request\<lparr>form_body := Inr (fd\<lparr>prompt_field :=
          Some (EntryString (js ''Please analyze this file content and provide key insights''))\<rparr>)\<rparr>)"
    using assms unfolding default_prompt_def [symmetric]
    by (simp add: POST_def handleFileUpload_def split: sum.splits form_entry.splits)
next
  assume "instruction_field fd = None"
  then show "POST e request
      = POST e (request\<lparr>form_body := Inr (fd\<lparr>instruction_field :=
          Some (EntryString (js ''Extract key information, summarize content, and provide analysis''))\<rparr>)\<rparr>)"
    using assms unfolding default_instruction_def [symmetric]
    by (simp add: POST_def handleFileUpload_def split: sum.splits form_entry.splits)
next
  assume h: "file_size f \<le> 10 * 1024 * 1024 \<and> truthy (supported_type (file_type f))
          \<and> (\<forall>x. prompt_field fd \<noteq> Some (EntryFile x))"
  have "\<exists>p. or_default (prompt_field fd) default_prompt = EntryString p"
    using h by (auto simp: or_default_def split: option.splits form_entry.splits)
  then obtain p where p: "or_default (prompt_field fd) default_prompt = EntryString p" ..
  let ?i = "entry_string (or_default (instruction_field fd) default_instruction)"
  let ?q = "upload_request e ?i f p"
  have c: "calls (POST e request) = [?q]"
    using assms h p
    by (simp add: POST_def handleFileUpload_def MAX_FILE_SIZE_def split: sum.splits)
  have i: "instruction_field fd = None \<longrightarrow>
      ?i = js ''Extract key information, summarize content, and provide analysis''"
    unfolding default_instruction_def [symmetric] by simp
  have pd: "prompt_field fd = None \<longrightarrow>
      p = js ''Please analyze this file content and provide key insights''"
    using p unfolding default_prompt_def [symmetric] by auto
  have k: "contents ?q =
      (if starts_with (file_type f) (js ''image/'') \<or> file_type f = js ''application/pdf''
       then Parts
         [TextPart (?i @ nl @ nl @ js ''File: '' @ file_name f @ nl @
            js ''Type: '' @ to_string (supported_type (file_type f)) @ nl @
            js ''Size: '' @ kilobytes (file_size f) @ js '' KB'' @ nl @ nl @
            js ''Prompt: '' @ p @ nl @ nl @ js ''Please analyze this document:''),
          InlineData (file_type f) (base64 (file_bytes f))]
       else Prompt (?i @ nl @ nl @ js ''File: '' @ file_name f @ nl @
            js ''Type: '' @ to_string (supported_type (file_type f)) @ nl @
            js ''Size: '' @ kilobytes (file_size f) @ js '' KB'' @ nl @ nl @
            js ''Prompt: '' @ p @ nl @ nl @ js ''File Content:'' @ nl @
            take 15000 (text_decode (file_bytes f))))"
    by (simp add: upload_request_contents binary_content_def text_content_def)
  show "\<exists>q i p. calls (POST e request) = [q]
      \<and> (instruction_field fd = None \<longrightarrow>
            i = js ''Extract key information, summarize content, and provide analysis'')
      \<and> (prompt_field fd = None \<longrightarrow>
            p = js ''Please analyze this file content and provide key insights'')
      \<and> contents q =
          (if starts_with (file_type f) (js ''image/'') \<or> file_type f = js ''application/pdf''
           then Parts
             [TextPart (i @ nl @ nl @ js ''File: '' @ file_name f @ nl @
                js ''Type: '' @ to_string (supported_type (file_type f)) @ nl @
                js ''Size: '' @ kilobytes (file_size f) @ js '' KB'' @ nl @ nl @
                js ''Prompt: '' @ p @ nl @ nl @ js ''Please analyze this document:''),
              InlineData (file_type f) (base64 (file_bytes f))]
           else Prompt (i @ nl @ nl @ js ''File: '' @ file_name f @ nl @
                js ''Type: '' @ to_string (supported_type (file_type f)) @ nl @
                js ''Size: '' @ kilobytes (file_size f) @ js '' KB'' @ nl @ nl @
                js ''Prompt: '' @ p @ nl @ nl @ js ''File Content:'' @ nl @
                take 15000 (text_decode (file_bytes f))))"
    by (rule exI [of _ ?q], rule exI [of _ ?i], rule exI [of _ p]) (intro conjI c i pd k)
qed

lemma kilobytes_2: "kilobytes 2 = js ''0.0''"
  by (simp add: kilobytes_def decimal.simps digit_def)

theorem missing_fields_defaulted_witness:
  "multipart (upload (only_file (small_file ''text/plain'')))
   \<and> form_body (upload (only_file (small_file ''text/plain''))) = Inr (only_file (small_file ''text/plain''))
   \<and> file_field (only_file (small_file ''text/plain'')) = Some (EntryFile (small_file ''text/plain''))
   \<and> prompt_field (only_file (small_file ''text/plain'')) = None
   \<and> instruction_field (only_file (small_file ''text/plain'')) = None
   \<and> file_size (small_file ''text/plain'') \<le> 10 * 1024 * 1024
   \<and> truthy (supported_type (file_type (small_file ''text/plain'')))
   \<and> (\<exists>q. calls (POST (answering (js ''ok'')) (upload (only_file (small_file ''text/plain'')))) = [q]
        \<and> contents q =
            Prompt (js ''Extract key information, summarize content, and provide analysis'' @ nl @ nl @
              js ''File: '' @ js ''cv'' @ nl @ js ''Type: '' @ js ''TXT'' @ nl @
              js ''Size: '' @ js ''0.0'' @ js '' KB'' @ nl @ nl @
              js ''Prompt: '' @ js ''Please analyze this file content and provide key insights'' @ nl @ nl @
              js ''File Content:'' @ nl @ js ''hi''))"
proof -
  have pn: "prompt_field (only_file (small_file ''text/plain'')) = None" by simp
  have inn: "instruction_field (only_file (small_file ''text/plain'')) = None" by simp
  have sz: "file_size (small_file ''text/plain'') \<le> 10 * 1024 * 1024" by simp
  have tr: "truthy (supported_type (file_type (small_file ''text/plain'')))" by simp
  have h: "file_size (small_file ''text/plain'') \<le> 10 * 1024 * 1024
      \<and> truthy (supported_type (file_type (small_file ''text/plain'')))
      \<and> (\<forall>x. prompt_field (only_file (small_file ''text/plain'')) \<noteq> Some (EntryFile x))"
    by simp
  have tx: "\<not> (starts_with (file_type (small_file ''text/plain'')) (js ''image/'')
      \<or> file_type (small_file ''text/plain'') = js ''application/pdf'')"
    by simp
  have nm: "file_name (small_file ''text/plain'') = js ''cv''" by (simp add: small_file_def)
  have ty: "to_string (supported_type (file_type (small_file ''text/plain''))) = js ''TXT''" by simp
  have kb: "kilobytes (file_size (small_file ''text/plain'')) = js ''0.0''" by (simp add: kilobytes_2)
  have dc: "take 15000 (text_decode (file_bytes (small_file ''text/plain''))) = js ''hi''"
    by (simp add: decode_hi) (simp add: js_def)
  note r = missing_fields_defaulted [where f = "small_file ''text/plain''" and e = "answering (js ''ok'')",
      OF multipart_upload upload_form only_file_simps(1), THEN conjunct2, THEN conjunct2, THEN mp, OF h]
  from r obtain q i p where b:
    "calls (POST (answering (js ''ok'')) (upload (only_file (small_file ''text/plain'')))) = [q]
     \<and> (instruction_field (only_file (small_file ''text/plain'')) = None \<longrightarrow>
          i = js ''Extract key information, summarize content, and provide analysis'')
     \<and> (prompt_field (only_file (small_file ''text/plain'')) = None \<longrightarrow>
          p = js ''Please analyze this file content and provide key insights'')
     \<and> contents q =
        (if starts_with (file_type (small_file ''text/plain'')) (js ''image/'')
            \<or> file_type (small_file ''text/plain'') = js ''application/pdf''
         then Parts
           [TextPart (i @ nl @ nl @ js ''File: '' @ file_name (small_file ''text/plain'') @ nl @
              js ''Type: '' @ to_string (supported_type (file_type (small_file ''text/plain''))) @ nl @
              js ''Size: '' @ kilobytes (file_size (small_file ''text/plain'')) @ js '' KB'' @ nl @ nl @
              js ''Prompt: '' @ p @ nl @ nl @ js ''Please analyze this document:''),
            InlineData (file_type (small_file ''text/plain'')) (base64 (file_bytes (small_file ''text/plain'')))]
         else Prompt (i @ nl @ nl @ js ''File: '' @ file_name (small_file ''text/plain'') @ nl @
              js ''Type: '' @ to_string (supported_type (file_type (small_file ''text/plain''))) @ nl @
              js ''Size: '' @ kilobytes (file_size (small_file ''text/plain'')) @ js '' KB'' @ nl @ nl @
              js ''Prompt: '' @ p @ nl @ nl @ js ''File Content:'' @ nl @
              take 15000 (text_decode (file_bytes (small_file ''text/plain'')))))"
    by (elim exE)
  note c = b [THEN conjunct1]
  have i': "i = js ''Extract key information, summarize content, and provide analysis''"
    by (rule b [THEN conjunct2, THEN conjunct1, THEN mp, OF inn])
  have p': "p = js ''Please analyze this file content and provide key insights''"
    by (rule b [THEN conjunct2, THEN conjunct2, THEN conjunct1, THEN mp, OF pn])
  note k = b [THEN conjunct2, THEN conjunct2, THEN conjunct2]
  have kk: "contents q =
      Prompt (js ''Extract key information, summarize content, and provide analysis'' @ nl @ nl @
        js ''File: '' @ js ''cv'' @ nl @ js ''Type: '' @ js ''TXT'' @ nl @
        js ''Size: '' @ js ''0.0'' @ js '' KB'' @ nl @ nl @
        js ''Prompt: '' @ js ''Please analyze this file content and provide key insights'' @ nl @ nl @
        js ''File Content:'' @ nl @ js ''hi'')"
    using k unfolding if_not_P [OF tx] nm ty kb dc i' p' .
  have ex: "\<exists>q. calls (POST (answering (js ''ok'')) (upload (only_file (small_file ''text/plain'')))) = [q]
      \<and> contents q =
          Prompt (js ''Extract key information, summarize content, and provide analysis'' @ nl @ nl @
            js ''File: '' @ js ''cv'' @ nl @ js ''Type: '' @ js ''TXT'' @ nl @
            js ''Size: '' @ js ''0.0'' @ js '' KB'' @ nl @ nl @
            js ''Prompt: '' @ js ''Please analyze this file content and provide key insights'' @ nl @ nl @
            js ''File Content:'' @ nl @ js ''hi'')"
    by (rule exI [of _ q]) (rule conjI [OF c kk])
  show ?thesis
    by (intro conjI multipart_upload upload_form only_file_simps(1) pn inn sz tr ex)
qed

text \<open>
  C2, as the code has it. For a multipart upload of a file whose type is a key of
  \<^verbatim>\<open>SUPPORTED_TYPES\<close>, whose size is at most 10 * 1024 * 1024 bytes and whose
  \<^verbatim>\<open>prompt\<close> entry, if there is one, is a string: the provider is called once; for a type
  that starts with \<^verbatim>\<open>image/\<close> or is \<^verbatim>\<open>application/pdf\<close> with a text part and the
  file's bytes in base64 as inline data under the file's type, for any other type with one
  prompt string that ends in \<^verbatim>\<open>File Content:\<close>, a newline, and the first 15000 code
  units of the bytes decoded as UTF-8.
\<close>

theorem upload_dispatch:
  assumes "multipart request"
    and "form_body request = Inr fd"
    and "file_field fd = Some (EntryFile f)"
    and "file_type f \<in> set (map (\<lambda>(t, l). js t) SUPPORTED_TYPES)"
    and "file_size f \<le> 10 * 1024 * 1024"
    and "\<forall>p. prompt_field fd \<noteq> Some (EntryFile p)"
  shows "\<exists>q. calls (POST e request) = [q]
    \<and> (if starts_with (file_type f) (js ''image/'') \<or> file_type f = js ''application/pdf''
        then \<exists>t. contents q = Parts [TextPart t, InlineData (file_type f) (base64 (file_bytes f))]
        else \<exists>t. contents q = Prompt (t @ js ''File Content:'' @ nl @ take 15000 (text_decode (file_bytes f))))"
proof -
  have "\<exists>p. or_default (prompt_field fd) default_prompt = EntryString p"
    using assms(6) by (auto simp: or_default_def split: option.splits form_entry.splits)
  then obtain p where p: "or_default (prompt_field fd) default_prompt = EntryString p" ..
  let ?q = "upload_request e (entry_string (or_default (instruction_field fd) default_instruction)) f p"
  have "calls (POST e request) = [?q]"
    using assms(1,2,3,5) supported_truthy [OF assms(4)] p
    by (simp add: POST_def handleFileUpload_def MAX_FILE_SIZE_def split: sum.splits)
  moreover have "if starts_with (file_type f) (js ''image/'') \<or> file_type f = js ''application/pdf''
        then \<exists>t. contents ?q = Parts [TextPart t, InlineData (file_type f) (base64 (file_bytes f))]
        else \<exists>t. contents ?q = Prompt (t @ js ''File Content:'' @ nl @ take 15000 (text_decode (file_bytes f)))"
    using binary_content_shape text_content_shape by (simp add: upload_request_contents)
  ultimately show ?thesis by blast
qed

theorem upload_dispatch_witness:
  "multipart (upload (only_file (small_file ''text/plain'')))
   \<and> form_body (upload (only_file (small_file ''text/plain''))) = Inr (only_file (small_file ''text/plain''))
   \<and> file_field (only_file (small_file ''text/plain'')) = Some (EntryFile (small_file ''text/plain''))
   \<and> file_type (small_file ''text/plain'') \<in> set (map (\<lambda>(t, l). js t) SUPPORTED_TYPES)
   \<and> file_size (small_file ''text/plain'') \<le> 10 * 1024 * 1024
   \<and> (\<forall>p. prompt_field (only_file (small_file ''text/plain'')) \<noteq> Some (EntryFile p))
   \<and> (\<exists>q. calls (POST (answering (js ''ok'')) (upload (only_file (small_file ''text/plain'')))) = [q]
        \<and> (\<exists>t. contents q = Prompt (t @ js ''File Content:'' @ nl @ js ''hi'')))"
proof -
  have ty: "file_type (small_file ''text/plain'') \<in> set (map (\<lambda>(t, l). js t) SUPPORTED_TYPES)"
    by (simp add: SUPPORTED_TYPES_def)
  have sz: "file_size (small_file ''text/plain'') \<le> 10 * 1024 * 1024" by simp
  have pr: "\<forall>p. prompt_field (only_file (small_file ''text/plain'')) \<noteq> Some (EntryFile p)" by simp
  have tx: "\<not> (starts_with (file_type (small_file ''text/plain'')) (js ''image/'')
      \<or> file_type (small_file ''text/plain'') = js ''application/pdf'')"
    by simp
  have dc: "take 15000 (text_decode (file_bytes (small_file ''text/plain''))) = js ''hi''"
    by (simp add: decode_hi) (simp add: js_def)
  note r = upload_dispatch [where e = "answering (js ''ok'')", OF multipart_upload upload_form only_file_simps(1) ty sz pr]
  have "\<exists>q. calls (POST (answering (js ''ok'')) (upload (only_file (small_file ''text/plain'')))) = [q]
        \<and> (\<exists>t. contents q = Prompt (t @ js ''File Content:'' @ nl @ js ''hi''))"
    using r tx dc by (simp only: if_False) 
  with ty sz pr multipart_upload [of "only_file (small_file ''text/plain'')"]
    upload_form [of "only_file (small_file ''text/plain'')"]
    only_file_simps(1) [of "small_file ''text/plain''"]
  show ?thesis by blast
qed

text \<open>
  C2 as stated fails: a PDF of 10 * 1024 * 1024 + 1 bytes is answered before any provider
  call, and so is a small PDF sent with a file as its \<^verbatim>\<open>prompt\<close> entry
  (\<^verbatim>\<open>prompt.substring\<close> throws).
\<close>

theorem upload_not_sent:
  "js ''application/pdf'' \<in> set (map (\<lambda>(t, l). js t) SUPPORTED_TYPES)
   \<and> file_type (big_file ''application/pdf'' 10485761) = js ''application/pdf''
   \<and> calls (POST (answering (js ''ok'')) (upload (only_file (big_file ''application/pdf'' 10485761)))) = []
   \<and> file_type (small_file ''application/pdf'') = js ''application/pdf''
   \<and> file_size (small_file ''application/pdf'') \<le> 10 * 1024 * 1024
   \<and> calls (POST (answering (js ''ok''))
        (upload \<lparr>file_field = Some (EntryFile (small_file ''application/pdf'')),
                 prompt_field = Some (EntryFile (small_file ''text/plain'')),
                 instruction_field = None\<rparr>)) = []"
  by (simp add: SUPPORTED_TYPES_def POST_def handleFileUpload_def MAX_FILE_SIZE_def or_default_def)

section \<open>The response envelope\<close>

text \<open>
  C6, as the code has it. Every body that \<^verbatim>\<open>POST\<close> returns has a boolean \<^verbatim>\<open>success\<close>
  that is true exactly when the status is 200 and exactly one of \<^verbatim>\<open>response\<close> and
  \<^verbatim>\<open>error\<close>; \<^verbatim>\<open>metadata\<close> is present exactly when the status is 200.
\<close>

theorem response_envelope:
  "field (body (resp (POST e request))) ''success'' = Some (JBool (status (resp (POST e request)) = 200))
   \<and> (field (body (resp (POST e request))) ''response'' = None)
       \<noteq> (field (body (resp (POST e request))) ''error'' = None)
   \<and> (field (body (resp (POST e request))) ''metadata'' \<noteq> None) = (status (resp (POST e request)) = 200)"
proof (cases "multipart request")
  case True
  then have "POST e request = handleFileUpload e request" by (simp add: POST_def)
  then show ?thesis using envelope_file [of e request] by (simp add: envelope_def)
next
  case False
  then have "POST e request = handleTextRequest e request" by (simp add: POST_def)
  then show ?thesis using envelope_text [of e request] by (simp add: envelope_def)
qed

theorem response_envelope_witness:
  "status (resp (POST (answering (js ''ok'')) (prompt_request ''hello''))) = 200
   \<and> field (body (resp (POST (answering (js ''ok'')) (prompt_request ''hello'')))) ''success''
       = Some (JBool True)
   \<and> field (body (resp (POST (answering (js ''ok'')) (prompt_request ''hello'')))) ''metadata'' \<noteq> None"
proof -
  have "status (resp (POST (answering (js ''ok'')) (prompt_request ''hello''))) = 200"
    using hello_not_blank by (simp add: POST_def handleTextRequest_def)
  then show ?thesis
    using response_envelope [of "answering (js ''ok'')" "prompt_request ''hello''"] by simp
qed

text \<open>
  C6 as stated fails: the answer to an empty prompt is a 400 whose body has no
  \<^verbatim>\<open>metadata\<close>.
\<close>

theorem error_body_without_metadata:
  "status (resp (POST (answering (js ''ok'')) (prompt_request ''''))) = 400
   \<and> field (body (resp (POST (answering (js ''ok'')) (prompt_request '''')))) ''metadata'' = None"
  by (simp add: POST_def handleTextRequest_def trim_def)

section \<open>The capability description\<close>

text \<open>
  C9. \<^verbatim>\<open>GET\<close> answers every request with status 200 and a body that holds the configured
  model name, the ten labels of the supported types in the table's order, and the maximum
  size as \<^verbatim>\<open>10MB\<close>; the answer does not depend on the request.
\<close>

theorem capability_description:
  "status (GET e request) = 200
   \<and> field (body (GET e request)) ''model'' = Some (JStr (MODEL_NAME e))
   \<and> field (body (GET e request)) ''supportedFileTypes''
       = Some (JArr (map (\<lambda>l. JStr (js l))
           [''PDF'', ''TXT'', ''Markdown'', ''DOC'', ''DOCX'', ''CSV'', ''JPEG'', ''PNG'', ''WebP'', ''JSON'']))
   \<and> field (body (GET e request)) ''maxFileSize'' = Some (JStr (js ''10MB''))
   \<and> GET e request = GET e request'"
  by (simp add: GET_def supported_labels_def SUPPORTED_TYPES_def)

theorem capability_description_witness:
  "status (GET (answering (js ''ok'')) (prompt_request ''hello'')) = 200
   \<and> field (body (GET (answering (js ''ok'')) (prompt_request ''hello''))) ''model''
       = Some (JStr (js ''gemini-1.5-flash''))
   \<and> field (body (GET (answering (js ''ok'')) (prompt_request ''hello''))) ''maxFileSize''
       = Some (JStr (js ''10MB''))"
  using capability_description [of "answering (js ''ok'')" "prompt_request ''hello''"]
  by (simp add: MODEL_NAME_def answering_def)

end
